theory Spec2Isabelle
  imports Main
begin

section \<open>Values: dtypes, errors, tensors\<close>

text \<open>
  The embedding follows \<^verbatim>\<open>src/trak/traker.py\<close>. Scalars are an abstract type \<open>'a\<close>
  (the values a floating-point tensor holds); rounding to a dtype is the parameter
  \<open>cast\<close> of the environment. A two-dimensional tensor carries its dtype, its number
  of columns and its rows.
\<close>

datatype dtype = Float16 | BFloat16 | Float32 | Float64

datatype device = Cpu | Cuda

datatype ProjectionType = Normal | Rademacher

text \<open>
  Errors are values. The first six are the Python exceptions the source and the
  library calls it makes can raise; the last three are the kinds the specification
  names (no statement of \<^verbatim>\<open>traker.py\<close> raises or defines them).
\<close>

datatype error =
    NameError | AttributeError | TypeError | ValueError | IndexError | RuntimeError
  | ConfigurationError | UnsupportedModeError | ShapeMismatchError

record 'a tensor =
  t_dtype :: dtype
  t_cols :: nat
  t_rows :: "'a list list"

text \<open>What a Python call hands back to its caller.\<close>

datatype 'a pyval = PyNone | PyTensor "'a tensor"

text \<open>A tuple of parameter-shaped tensors (weights, buffers, gradients), each flattened.\<close>

record 'a params =
  p_dtype :: dtype
  p_tensors :: "'a list list"

definition shape :: "'a tensor \<Rightarrow> nat \<times> nat" where
  "shape t = (length (t_rows t), t_cols t)"

definition zeros :: "dtype \<Rightarrow> nat \<Rightarrow> nat \<Rightarrow> ('a::zero) tensor" where
  "zeros dt n m = \<lparr>t_dtype = dt, t_cols = m, t_rows = replicate n (replicate m 0)\<rparr>"

text \<open>\<^verbatim>\<open>ch.zeros([n, m])\<close>: the dtype is torch's default dtype; a negative size raises.\<close>

definition ch_zeros :: "dtype \<Rightarrow> int \<Rightarrow> int \<Rightarrow> error + ('a::zero) tensor" where
  "ch_zeros dflt n m =
     (if n < 0 \<or> m < 0 then Inl RuntimeError else Inr (zeros dflt (nat n) (nat m)))"

text \<open>\<^verbatim>\<open>t.to(dt)\<close>: every entry is rounded to \<open>dt\<close>.\<close>

definition to :: "(dtype \<Rightarrow> 'a \<Rightarrow> 'a) \<Rightarrow> dtype \<Rightarrow> 'a tensor \<Rightarrow> 'a tensor" where
  "to cst dt t = t\<lparr>t_dtype := dt, t_rows := map (map (cst dt)) (t_rows t)\<rparr>"

text \<open>\<^verbatim>\<open>t.detach().clone().cpu()\<close>: a fresh copy without graph, same dtype and values.\<close>

definition detach_clone_cpu :: "'a tensor \<Rightarrow> 'a tensor" where
  "detach_clone_cpu t = t"

subsection \<open>Index assignment \<^verbatim>\<open>G[inds] = v\<close>\<close>

text \<open>
  torch broadcasts the value to the shape of the indexing result: \<open>n\<close> rows of
  \<open>P\<close> columns. A dimension of the value must equal the target's or be 1.
\<close>

definition expand_row :: "nat \<Rightarrow> 'a tensor \<Rightarrow> 'a list \<Rightarrow> 'a list" where
  "expand_row P v r =
     (if t_cols v = P then r else (case r of [] \<Rightarrow> [] | x # _ \<Rightarrow> replicate P x))"

definition broadcast_to :: "nat \<Rightarrow> nat \<Rightarrow> 'a tensor \<Rightarrow> 'a list list option" where
  "broadcast_to n P v =
     (if (length (t_rows v) = n \<or> length (t_rows v) = 1) \<and> (t_cols v = P \<or> t_cols v = 1)
      then Some (map (expand_row P v)
                  (if length (t_rows v) = n then t_rows v else replicate n (hd (t_rows v))))
      else None)"

text \<open>Python's index convention: a negative index counts from the end.\<close>

definition row_of :: "nat \<Rightarrow> int \<Rightarrow> nat" where
  "row_of N i = (if i < 0 then nat (i + int N) else nat i)"

text \<open>
  The rows are written one after the other, so with a repeated index the last write
  stays; an index outside \<open>[-N, N)\<close> raises IndexError when it is reached.
\<close>

fun put_rows :: "'a list list \<Rightarrow> (int \<times> 'a list) list \<Rightarrow> (error + unit) \<times> 'a list list" where
  "put_rows G [] = (Inr (), G)"
| "put_rows G ((i, r) # ps) =
     (if - int (length G) \<le> i \<and> i < int (length G)
      then put_rows (G[row_of (length G) i := r]) ps
      else (Inl IndexError, G))"

text \<open>
  \<open>inds = None\<close> is Python's \<^verbatim>\<open>G[None] = v\<close>: the indexing result is the whole
  table under a new leading axis, so the value is broadcast to all \<open>N\<close> rows and
  copied, converted to the dtype of \<open>G\<close>. A list of integers is an advanced index:
  torch's \<^verbatim>\<open>index_put_\<close> checks that the value broadcasts to the indexing result,
  then that value and table have the same dtype ("Index put requires the source and
  destination dtypes match"), each with RuntimeError, and then writes the rows.
\<close>

definition setitem ::
  "(dtype \<Rightarrow> 'a \<Rightarrow> 'a) \<Rightarrow> 'a tensor \<Rightarrow> int list option \<Rightarrow> 'a tensor
     \<Rightarrow> (error + unit) \<times> 'a tensor" where
  "setitem cst G inds v =
     (case inds of
        None \<Rightarrow>
          (case broadcast_to (length (t_rows G)) (t_cols G) v of
             None \<Rightarrow> (Inl RuntimeError, G)
           | Some rs \<Rightarrow> (Inr (), G\<lparr>t_rows := map (map (cst (t_dtype G))) rs\<rparr>))
      | Some is \<Rightarrow>
          (case broadcast_to (length is) (t_cols G) v of
             None \<Rightarrow> (Inl RuntimeError, G)
           | Some rs \<Rightarrow>
               (if t_dtype v \<noteq> t_dtype G then (Inl RuntimeError, G)
                else (case put_rows (t_rows G) (zip is rs) of
                        (res, rows') \<Rightarrow> (res, G\<lparr>t_rows := rows'\<rparr>)))))"

section \<open>The TRAKer object\<close>

text \<open>
  The attributes \<^verbatim>\<open>__init__\<close> sets. The model is held as its trainable parameters,
  the only part of it the class reads; \<open>model_output_fn\<close> is the object's
  \<^verbatim>\<open>get_out_to_loss\<close> method; \<open>projector\<close> is the \<^verbatim>\<open>project\<close> method of
  the constructed projector instance.
\<close>

record ('a, 's) TRAKer =
  save_dir :: string
  model :: "'a params"
  model_output_fn :: "'a list list \<Rightarrow> 's list \<Rightarrow> error + 'a list"
  device :: "device option"
  grad_dtype :: dtype
  last_ind :: int
  projector :: "'a tensor \<Rightarrow> error + 'a tensor"
  train_set_size :: int
  model_params :: "'a list"
  grad_dim :: nat
  grads :: "'a tensor"

text \<open>
  Modelled from the spec: \<^verbatim>\<open>trak.utils.parameters_to_vector\<close> is not under src/;
  the spec calls its result "a single flattened, ordered sequence of scalars
  representing every trainable parameter".
\<close>

definition parameters_to_vector :: "'a params \<Rightarrow> 'a list" where
  "parameters_to_vector ps = concat (p_tensors ps)"

text \<open>The arguments of \<^verbatim>\<open>TRAKer.__init__\<close>; \<open>a_projector\<close> is the class handed in.\<close>

record ('a, 's) init_args =
  a_model :: "'a params"
  a_model_output_fn :: "'a list list \<Rightarrow> 's list \<Rightarrow> error + 'a list"
  a_proj_dim :: int
  a_projector :: "int \<Rightarrow> int \<Rightarrow> nat \<Rightarrow> ProjectionType \<Rightarrow> dtype \<Rightarrow> device option
                    \<Rightarrow> error + ('a tensor \<Rightarrow> error + 'a tensor)"
  a_proj_type :: ProjectionType
  a_proj_seed :: int
  a_save_dir :: string
  a_device :: "device option"
  a_train_set_size :: int
  a_grad_dtype :: dtype
  a_load_from :: "string option"

text \<open>
  \<open>dflt\<close> is torch's default dtype at the time of the call: the table is made by
  \<^verbatim>\<open>ch.zeros([train_set_size, proj_dim])\<close>, with no dtype argument.
\<close>

definition TRAKer_init :: "dtype \<Rightarrow> ('a::zero, 's) init_args \<Rightarrow> error + ('a, 's) TRAKer" where
  "TRAKer_init dflt a =
     (case a_projector a (a_proj_seed a) (a_proj_dim a)
             (length (parameters_to_vector (a_model a))) (a_proj_type a)
             (a_grad_dtype a) (a_device a) of
        Inl e \<Rightarrow> Inl e
      | Inr pr \<Rightarrow>
          (case ch_zeros dflt (a_train_set_size a) (a_proj_dim a) of
             Inl e \<Rightarrow> Inl e
           | Inr z \<Rightarrow>
               Inr \<lparr>save_dir = a_save_dir a,
                    model = a_model a,
                    model_output_fn = a_model_output_fn a,
                    device = a_device a,
                    grad_dtype = a_grad_dtype a,
                    last_ind = 0,
                    projector = pr,
                    train_set_size = a_train_set_size a,
                    model_params = parameters_to_vector (a_model a),
                    grad_dim = length (parameters_to_vector (a_model a)),
                    grads = z\<rparr>))"

text \<open>
  \<^verbatim>\<open>record_grads\<close>: convert to \<open>grad_dtype\<close>, project, write the rows at \<open>inds\<close>.
  A failure of the projector leaves the object as it was.
\<close>

definition record_grads ::
  "(dtype \<Rightarrow> 'a \<Rightarrow> 'a) \<Rightarrow> ('a, 's) TRAKer \<Rightarrow> 'a tensor \<Rightarrow> int list option
     \<Rightarrow> (error + unit) \<times> ('a, 's) TRAKer" where
  "record_grads cst tr g inds =
     (case projector tr (to cst (grad_dtype tr) g) of
        Inl e \<Rightarrow> (Inl e, tr)
      | Inr pg \<Rightarrow>
          (case setitem cst (grads tr) inds (detach_clone_cpu pg) of
             (res, G') \<Rightarrow> (res, tr\<lparr>grads := G'\<rparr>)))"

section \<open>Collaborators of the featurization pass\<close>

text \<open>
  Modelled from the spec: \<^verbatim>\<open>trak.projectors.BasicProjector\<close> is not under src/.
  The spec describes the projection map as "a deterministic function of (seed,
  grad_dim, proj_dim, distribution type) that maps any vector of length grad_dim to a
  vector of length proj_dim", applied "to each row independently" and "computed in the
  projector's configured working dtype"; construction "fails with ConfigurationError
  if grad_dim is not yet known or proj_dim \<le> 0". The map itself is the parameter
  \<open>rmap\<close>.
\<close>

definition BasicProjector ::
  "(int \<Rightarrow> nat \<Rightarrow> nat \<Rightarrow> ProjectionType \<Rightarrow> 'a list \<Rightarrow> 'a list) \<Rightarrow> (dtype \<Rightarrow> 'a \<Rightarrow> 'a)
     \<Rightarrow> int \<Rightarrow> int \<Rightarrow> nat \<Rightarrow> ProjectionType \<Rightarrow> dtype \<Rightarrow> device option
     \<Rightarrow> error + ('a tensor \<Rightarrow> error + 'a tensor)" where
  "BasicProjector rmap cst seed pdim gdim ty dt dev =
     (if gdim = 0 \<or> pdim \<le> 0 then Inl ConfigurationError
      else Inr (\<lambda>t. Inr \<lparr>t_dtype = dt, t_cols = nat pdim,
                          t_rows = map (\<lambda>r. map (cst dt) (rmap seed gdim (nat pdim) ty r))
                                       (t_rows t)\<rparr>))"

text \<open>
  The \<^verbatim>\<open>model\<close> argument of \<^verbatim>\<open>featurize\<close>: the functional strategy unpacks a
  triple \<^verbatim>\<open>(func_model, weights, buffers)\<close>, the iterative one takes the module.
  Python decides at run time what the argument is:
  \<^item> \<open>FunctionalModel\<close>: a triple whose first item is callable on weights, buffers and
    images;
  \<^item> \<open>Items\<close>: a tuple or list of tensor tuples, none of them callable, of any length;
  \<^item> \<open>Sequential\<close>: a module that can be iterated (\<^verbatim>\<open>nn.Sequential\<close>), given by the
    parameters of its children, each child a module whose forward takes one input;
  \<^item> \<open>Module\<close>: a module that cannot be iterated, given by its parameters.
\<close>

datatype ('a, 's) model_arg =
    FunctionalModel "'a params \<Rightarrow> 'a params \<Rightarrow> 's list \<Rightarrow> error + 'a list list"
                    "'a params" "'a params"
  | Items "'a params list"
  | Sequential "'a params list"
  | Module "'a params"

text \<open>Calling an object that is not callable on three arguments raises TypeError.\<close>

definition not_callable :: "'a params \<Rightarrow> 'a params \<Rightarrow> 's list \<Rightarrow> error + 'a list list" where
  "not_callable w b x = Inl TypeError"

text \<open>
  \<^verbatim>\<open>func_model, weights, buffers = model\<close>: TypeError when the model cannot be
  iterated, ValueError when it yields another number of items than three.
\<close>

definition unpack_items ::
  "'a params list
     \<Rightarrow> error + (('a params \<Rightarrow> 'a params \<Rightarrow> 's list \<Rightarrow> error + 'a list list)
                  \<times> 'a params \<times> 'a params)" where
  "unpack_items xs = (case xs of [f, w, b] \<Rightarrow> Inr (not_callable, w, b) | _ \<Rightarrow> Inl ValueError)"

definition unpack3 ::
  "('a, 's) model_arg
     \<Rightarrow> error + (('a params \<Rightarrow> 'a params \<Rightarrow> 's list \<Rightarrow> error + 'a list list)
                  \<times> 'a params \<times> 'a params)" where
  "unpack3 mdl =
     (case mdl of
        FunctionalModel fm w b \<Rightarrow> Inr (fm, w, b)
      | Items xs \<Rightarrow> unpack_items xs
      | Sequential cs \<Rightarrow> unpack_items cs
      | Module ps \<Rightarrow> Inl TypeError)"

text \<open>\<^verbatim>\<open>model.parameters()\<close>: a tuple or list has no such attribute.\<close>

definition parameters :: "('a, 's) model_arg \<Rightarrow> error + 'a params" where
  "parameters mdl =
     (case mdl of
        FunctionalModel fm w b \<Rightarrow> Inl AttributeError
      | Items xs \<Rightarrow> Inl AttributeError
      | Sequential cs \<Rightarrow>
          Inr \<lparr>p_dtype = (case cs of [] \<Rightarrow> Float32 | c # cs' \<Rightarrow> p_dtype c),
               p_tensors = concat (map p_tensors cs)\<rparr>
      | Module ps \<Rightarrow> Inr ps)"

text \<open>
  \<^verbatim>\<open>out_fn\<close> is called in two shapes: on one sample with detached weights and
  buffers (under \<^verbatim>\<open>grad\<close>/\<^verbatim>\<open>vmap\<close>), and on the model with the whole batch
  (iterative strategy), where it returns one differentiable output per sample.
\<close>

record ('a, 's, 'y) out_fn =
  on_sample :: "'a params \<Rightarrow> 'a params \<Rightarrow> 's list \<Rightarrow> error + 'a"
  on_module :: "('a, 's) model_arg \<Rightarrow> 's list list \<Rightarrow> error + 'y list"

text \<open>
  The execution environment: torch's default dtype and rounding, whether the
  \<^verbatim>\<open>functorch\<close> import succeeded (then its \<^verbatim>\<open>grad\<close> transform), whether a CUDA
  device exists, and \<^verbatim>\<open>ch.autograd.grad\<close>.
\<close>

record ('a, 's, 'y) env =
  default_dtype :: dtype
  cast :: "dtype \<Rightarrow> 'a \<Rightarrow> 'a"
  functorch :: "(('a params \<Rightarrow> 'a params \<Rightarrow> 's list \<Rightarrow> error + 'a)
                   \<Rightarrow> 'a params \<Rightarrow> 'a params \<Rightarrow> 's list \<Rightarrow> error + 'a params) option"
  cuda_available :: bool
  autograd_grad :: "'y \<Rightarrow> 'a params \<Rightarrow> error + 'a params"

text \<open>The first error of a sequence of calls is the one raised.\<close>

fun collect :: "(error + 'b) list \<Rightarrow> error + 'b list" where
  "collect [] = Inr []"
| "collect (Inl e # _) = Inl e"
| "collect (Inr x # rs) = (case collect rs of Inl e \<Rightarrow> Inl e | Inr xs \<Rightarrow> Inr (x # xs))"

text \<open>
  \<^verbatim>\<open>vmap(f, in_dims=(None, None, 0, ..., 0))(weights, buffers, *batch)\<close>: every tensor
  of the batch (a list of per-sample slices) is mapped over its leading dimension.
  functorch raises ValueError when nothing is mapped or the sizes differ.
\<close>

definition vmap ::
  "('a params \<Rightarrow> 'a params \<Rightarrow> 's list \<Rightarrow> error + 'b) \<Rightarrow> 'a params \<Rightarrow> 'a params
     \<Rightarrow> 's list list \<Rightarrow> error + 'b list" where
  "vmap f weights buffers batch =
     (case batch of
        [] \<Rightarrow> Inl ValueError
      | t # ts \<Rightarrow>
          (if list_all (\<lambda>u. length u = length t) ts
           then collect (map (\<lambda>i. f weights buffers (map (\<lambda>u. u ! i) batch)) [0..<length t])
           else Inl ValueError))"

text \<open>
  Modelled from the spec: \<^verbatim>\<open>trak.utils.vectorize_and_ignore_buffers\<close> is not under
  src/; the spec says the batched strategy "returns a flattened-and-buffer-stripped
  gradient matrix", one row per sample.
\<close>

definition vectorize_and_ignore_buffers :: "dtype \<Rightarrow> 'a params list \<Rightarrow> 'a tensor" where
  "vectorize_and_ignore_buffers dflt gs =
     (case gs of
        [] \<Rightarrow> \<lparr>t_dtype = dflt, t_cols = 0, t_rows = []\<rparr>
      | g # _ \<Rightarrow> \<lparr>t_dtype = p_dtype g, t_cols = length (parameters_to_vector g),
                  t_rows = map parameters_to_vector gs\<rparr>)"

section \<open>Featurization\<close>

text \<open>
  \<^verbatim>\<open>_featurize_functional\<close>. The names \<^verbatim>\<open>grad\<close> and \<^verbatim>\<open>vmap\<close> are bound only
  when the import at the top of the module succeeded; otherwise the first use raises
  NameError. The method has no return statement.
\<close>

definition featurize_functional ::
  "('a, 's, 'y) env \<Rightarrow> ('a, 's) TRAKer \<Rightarrow> ('a, 's, 'y) out_fn \<Rightarrow> 'a params \<Rightarrow> 'a params
     \<Rightarrow> 's list list \<Rightarrow> int list option \<Rightarrow> (error + 'a pyval) \<times> ('a, 's) TRAKer" where
  "featurize_functional ev tr outf weights buffers batch inds =
     (case functorch ev of
        None \<Rightarrow> (Inl NameError, tr)
      | Some grad \<Rightarrow>
          (case vmap (grad (on_sample outf)) weights buffers batch of
             Inl e \<Rightarrow> (Inl e, tr)
           | Inr gs \<Rightarrow>
               (case record_grads (cast ev) tr
                       (vectorize_and_ignore_buffers (default_dtype ev) gs) inds of
                  (Inl e, tr') \<Rightarrow> (Inl e, tr')
                | (Inr u, tr') \<Rightarrow> (Inr PyNone, tr'))))"

text \<open>
  The loop of \<^verbatim>\<open>_featurize_iter\<close>: row \<open>ind\<close> of the local matrix receives the
  flattened gradient of \<^verbatim>\<open>margin[ind]\<close>.
\<close>

fun iter_rows ::
  "('y \<Rightarrow> 'a params \<Rightarrow> error + 'a params) \<Rightarrow> (dtype \<Rightarrow> 'a \<Rightarrow> 'a) \<Rightarrow> ('a, 's) model_arg
     \<Rightarrow> 'y list \<Rightarrow> nat list \<Rightarrow> 'a tensor \<Rightarrow> error + 'a tensor" where
  "iter_rows ag cst mdl margin [] G = Inr G"
| "iter_rows ag cst mdl margin (ind # rest) G =
     (if length margin \<le> ind then Inl IndexError
      else (case parameters mdl of
              Inl e \<Rightarrow> Inl e
            | Inr ps \<Rightarrow>
                (case ag (margin ! ind) ps of
                   Inl e \<Rightarrow> Inl e
                 | Inr g \<Rightarrow>
                     (let v = map (cst (t_dtype G)) (parameters_to_vector g) in
                      if length v = t_cols G
                      then iter_rows ag cst mdl margin rest
                             (G\<lparr>t_rows := (t_rows G)[ind := v]\<rparr>)
                      else if length v = 1
                      then iter_rows ag cst mdl margin rest
                             (G\<lparr>t_rows := (t_rows G)[ind := replicate (t_cols G) (hd v)]\<rparr>)
                      else Inl RuntimeError))))"

text \<open>
  \<^verbatim>\<open>_featurize_iter(self, out_fn, model, batch, batch_size=None)\<close>. With a sequence
  for \<open>batch_size\<close>, \<^verbatim>\<open>ch.zeros(batch_size, self.grad_dim)\<close> raises TypeError;
  \<^verbatim>\<open>.cuda()\<close> raises without a CUDA device. The matrix is returned, not recorded.
\<close>

definition featurize_iter ::
  "('a::zero, 's, 'y) env \<Rightarrow> ('a, 's) TRAKer \<Rightarrow> ('a, 's, 'y) out_fn \<Rightarrow> ('a, 's) model_arg
     \<Rightarrow> 's list list \<Rightarrow> int list option \<Rightarrow> error + 'a pyval" where
  "featurize_iter ev tr outf mdl batch batch_size =
     (case batch_size of
        Some sz \<Rightarrow> Inl TypeError
      | None \<Rightarrow>
          (case batch of
             [] \<Rightarrow> Inl IndexError
           | t # ts \<Rightarrow>
               (if \<not> cuda_available ev then Inl RuntimeError
                else (case on_module outf mdl batch of
                        Inl e \<Rightarrow> Inl e
                      | Inr margin \<Rightarrow>
                          (case iter_rows (autograd_grad ev) (cast ev) mdl margin
                                  [0..<length t]
                                  (zeros (default_dtype ev) (length t) (grad_dim tr)) of
                             Inl e \<Rightarrow> Inl e
                           | Inr G \<Rightarrow> Inr (PyTensor G))))))"

text \<open>\<^verbatim>\<open>_get_loss_grad_functional\<close>: the batch is unpacked into exactly two tensors.\<close>

definition get_loss_grad_functional ::
  "('a, 's) TRAKer \<Rightarrow> ('a params \<Rightarrow> 'a params \<Rightarrow> 's list \<Rightarrow> error + 'a list list)
     \<Rightarrow> 'a params \<Rightarrow> 'a params \<Rightarrow> 's list list \<Rightarrow> int list option \<Rightarrow> error + 'a list" where
  "get_loss_grad_functional tr func_model weights buffers batch inds =
     (case batch of
        [images, labels] \<Rightarrow>
          (case func_model weights buffers images of
             Inl e \<Rightarrow> Inl e
           | Inr logits \<Rightarrow> model_output_fn tr logits labels)
      | _ \<Rightarrow> Inl ValueError)"

text \<open>
  \<^verbatim>\<open>featurize\<close>. In the functional branch the loss quantity is bound to the local
  \<^verbatim>\<open>loss_grads\<close> and the method ends. In the other branch \<open>inds\<close> is passed in the
  position of \<open>batch_size\<close>, the returned matrix is dropped, and the attribute
  \<^verbatim>\<open>_get_loss_grad_iter\<close> does not exist on the class, so its lookup raises
  AttributeError.
\<close>

definition featurize ::
  "('a::zero, 's, 'y) env \<Rightarrow> ('a, 's) TRAKer \<Rightarrow> ('a, 's, 'y) out_fn \<Rightarrow> 'l
     \<Rightarrow> ('a, 's) model_arg \<Rightarrow> 's list list \<Rightarrow> int list option \<Rightarrow> bool
     \<Rightarrow> (error + 'a pyval) \<times> ('a, 's) TRAKer" where
  "featurize ev tr outf loss_fn mdl batch inds functional =
     (if functional then
        (case unpack3 mdl of
           Inl e \<Rightarrow> (Inl e, tr)
         | Inr (func_model, weights, buffers) \<Rightarrow>
             (case featurize_functional ev tr outf weights buffers batch inds of
                (Inl e, tr') \<Rightarrow> (Inl e, tr')
              | (Inr u, tr') \<Rightarrow>
                  (case get_loss_grad_functional tr' func_model weights buffers batch inds of
                     Inl e \<Rightarrow> (Inl e, tr')
                   | Inr loss_grads \<Rightarrow> (Inr PyNone, tr'))))
      else
        (case featurize_iter ev tr outf mdl batch inds of
           Inl e \<Rightarrow> (Inl e, tr)
         | Inr g \<Rightarrow> (Inl AttributeError, tr)))"

text \<open>\<^verbatim>\<open>finalize\<close> is \<^verbatim>\<open>pass\<close>; \<^verbatim>\<open>score\<close> returns a fresh 1-by-1 zero tensor.\<close>

definition finalize :: "('a, 's) TRAKer \<Rightarrow> 'a pyval \<times> ('a, 's) TRAKer" where
  "finalize tr = (PyNone, tr)"

definition score :: "dtype \<Rightarrow> ('a::zero, 's) TRAKer \<Rightarrow> 'a pyval \<times> ('a, 's) TRAKer" where
  "score dflt tr = (PyTensor (zeros dflt 1 1), tr)"

text \<open>The defaults of the signature of \<^verbatim>\<open>__init__\<close>.\<close>

definition default_args ::
  "'a params \<Rightarrow> ('a list list \<Rightarrow> 's list \<Rightarrow> error + 'a list)
     \<Rightarrow> (int \<Rightarrow> int \<Rightarrow> nat \<Rightarrow> ProjectionType \<Rightarrow> dtype \<Rightarrow> device option
           \<Rightarrow> error + ('a tensor \<Rightarrow> error + 'a tensor))
     \<Rightarrow> ('a, 's) init_args" where
  "default_args mdl mof pcls =
     \<lparr>a_model = mdl, a_model_output_fn = mof, a_proj_dim = 10, a_projector = pcls,
      a_proj_type = Normal, a_proj_seed = 0, a_save_dir = ''./trak_results'',
      a_device = None, a_train_set_size = 1, a_grad_dtype = Float16, a_load_from = None\<rparr>"

text \<open>A sequence of calls on one object; each step keeps the object the call leaves.\<close>

datatype ('a, 's, 'y, 'l) call =
    Featurize "('a, 's, 'y) out_fn" 'l "('a, 's) model_arg" "'s list list" "int list option" bool
  | RecordGrads "'a tensor" "int list option"
  | Finalize
  | Score

fun step ::
  "('a::zero, 's, 'y) env \<Rightarrow> ('a, 's) TRAKer \<Rightarrow> ('a, 's, 'y, 'l) call \<Rightarrow> ('a, 's) TRAKer" where
  "step ev tr (Featurize outf lf mdl batch inds functional) =
     snd (featurize ev tr outf lf mdl batch inds functional)"
| "step ev tr (RecordGrads g inds) = snd (record_grads (cast ev) tr g inds)"
| "step ev tr Finalize = snd (finalize tr)"
| "step ev tr Score = snd (score (default_dtype ev) tr)"

definition run ::
  "('a::zero, 's, 'y) env \<Rightarrow> ('a, 's) TRAKer \<Rightarrow> ('a, 's, 'y, 'l) call list \<Rightarrow> ('a, 's) TRAKer" where
  "run ev tr cs = foldl (step ev) tr cs"

section \<open>A small concrete run\<close>

text \<open>
  Integers stand for scalars: three parameters, two features, five training samples,
  seed 0, a batch of two samples (images 10 and 20, labels 0 and 1). A dtype holds
  every integer up to its bound of exact integers (2 to the power 11, 8, 24 and 53) as
  it is; \<open>ex_cast\<close> clamps beyond the bound, where rounding is not modelled, and every
  value of the run lies within the bound of float16. The object is
  built with \<open>grad_dtype\<close> float32 under torch's initial default dtype float32, so
  that table and projected rows have one dtype.
\<close>

definition ex_cast :: "dtype \<Rightarrow> int \<Rightarrow> int" where
  "ex_cast dt x =
     (case dt of
        Float16 \<Rightarrow> max (- 2048) (min 2048 x)
      | BFloat16 \<Rightarrow> max (- 256) (min 256 x)
      | Float32 \<Rightarrow> max (- 16777216) (min 16777216 x)
      | Float64 \<Rightarrow> max (- 9007199254740992) (min 9007199254740992 x))"

definition ex_entry :: "ProjectionType \<Rightarrow> int \<Rightarrow> nat \<Rightarrow> nat \<Rightarrow> int" where
  "ex_entry ty seed i j =
     (case ty of Normal \<Rightarrow> int i + int j + seed
               | Rademacher \<Rightarrow> (if even (int i + int j + seed) then 1 else - 1))"

definition ex_rmap :: "int \<Rightarrow> nat \<Rightarrow> nat \<Rightarrow> ProjectionType \<Rightarrow> int list \<Rightarrow> int list" where
  "ex_rmap seed gd pd ty r =
     map (\<lambda>j. sum_list (map (\<lambda>i. r ! i * ex_entry ty seed i j) [0..<length r])) [0..<pd]"

definition ex_model :: "int params" where
  "ex_model = \<lparr>p_dtype = Float32, p_tensors = [[1, 2], [3]]\<rparr>"

definition ex_buffers :: "int params" where
  "ex_buffers = \<lparr>p_dtype = Float32, p_tensors = []\<rparr>"

definition ex_mof :: "int list list \<Rightarrow> int list \<Rightarrow> error + int list" where
  "ex_mof logits labels = Inr (map sum_list logits)"

definition ex_args :: "(int, int) init_args" where
  "ex_args = (default_args ex_model ex_mof (BasicProjector ex_rmap ex_cast))
               \<lparr>a_proj_dim := 2, a_train_set_size := 5, a_grad_dtype := Float32\<rparr>"

definition ex_tr :: "(int, int) TRAKer" where
  "ex_tr = projr (TRAKer_init Float32 ex_args)"

text \<open>The same construction with the default \<open>grad_dtype\<close>, float16.\<close>

definition ex_args_f16 :: "(int, int) init_args" where
  "ex_args_f16 = (default_args ex_model ex_mof (BasicProjector ex_rmap ex_cast))
                   \<lparr>a_proj_dim := 2, a_train_set_size := 5\<rparr>"

definition ex_tr_f16 :: "(int, int) TRAKer" where
  "ex_tr_f16 = projr (TRAKer_init Float32 ex_args_f16)"

definition ex_grad ::
  "(int params \<Rightarrow> int params \<Rightarrow> int list \<Rightarrow> error + int)
     \<Rightarrow> int params \<Rightarrow> int params \<Rightarrow> int list \<Rightarrow> error + int params" where
  "ex_grad f w b s =
     (case f w b s of
        Inl e \<Rightarrow> Inl e
      | Inr y \<Rightarrow> Inr \<lparr>p_dtype = p_dtype w, p_tensors = map (map (\<lambda>x. x * y)) (p_tensors w)\<rparr>)"

definition ex_out_fn :: "(int, int, int) out_fn" where
  "ex_out_fn =
     \<lparr>on_sample = (\<lambda>w b s. Inr (sum_list s)),
      on_module = (\<lambda>m batch. Inr (case batch of [] \<Rightarrow> [] | t # ts \<Rightarrow> t))\<rparr>"

definition ex_env :: "(int, int, int) env" where
  "ex_env =
     \<lparr>default_dtype = Float32, cast = ex_cast, functorch = Some ex_grad,
      cuda_available = True,
      autograd_grad = (\<lambda>y ps. Inr \<lparr>p_dtype = p_dtype ps,
                                     p_tensors = map (map (\<lambda>x. x * y)) (p_tensors ps)\<rparr>)\<rparr>"

definition ex_env_no_functorch :: "(int, int, int) env" where
  "ex_env_no_functorch = ex_env\<lparr>functorch := None\<rparr>"

definition ex_func_model :: "(int, int) model_arg" where
  "ex_func_model =
     FunctionalModel (\<lambda>w b images. Inr (map (\<lambda>x. [x, x + 1]) images)) ex_model ex_buffers"

definition ex_batch :: "int list list" where
  "ex_batch = [[10, 20], [0, 1]]"

definition ex_g1 :: "int tensor" where
  "ex_g1 = \<lparr>t_dtype = Float32, t_cols = 3, t_rows = [[4, 8, 12], [16, 20, 24]]\<rparr>"

definition ex_g2 :: "int tensor" where
  "ex_g2 = \<lparr>t_dtype = Float32, t_cols = 3, t_rows = [[7, 8, 9], [10, 11, 12]]\<rparr>"

definition ex_inds :: "int list option" where
  "ex_inds = Some [3, 4]"

definition ex_tr1 :: "(int, int) TRAKer" where
  "ex_tr1 = snd (record_grads ex_cast ex_tr ex_g1 ex_inds)"

definition ex_tr2 :: "(int, int) TRAKer" where
  "ex_tr2 = snd (record_grads ex_cast ex_tr1 ex_g2 ex_inds)"

definition ex_tr_feat :: "(int, int) TRAKer" where
  "ex_tr_feat = snd (featurize ex_env ex_tr ex_out_fn () ex_func_model ex_batch ex_inds True)"

definition ex_calls :: "(int, int, int, unit) call list" where
  "ex_calls =
     [Featurize ex_out_fn () ex_func_model ex_batch ex_inds True,
      RecordGrads ex_g1 (Some [0, - 1]),
      Score,
      Featurize ex_out_fn () (Module ex_model) ex_batch None False,
      Finalize]"

text \<open>A projector that accepts only tensors of dtype \<open>dt\<close>.\<close>

definition only_dtype ::
  "dtype \<Rightarrow> ('a tensor \<Rightarrow> error + 'a tensor) \<Rightarrow> 'a tensor \<Rightarrow> error + 'a tensor" where
  "only_dtype dt P t = (if t_dtype t = dt then P t else Inl TypeError)"

definition ex_mof2 :: "int list list \<Rightarrow> int list \<Rightarrow> error + int list" where
  "ex_mof2 logits labels = Inr (map (\<lambda>r. 1 + 2 * sum_list r) logits)"





section \<open>The table under index assignment\<close>

lemma row_of_less: "- int N \<le> i \<Longrightarrow> i < int N \<Longrightarrow> row_of N i < N"
  by (auto simp: row_of_def)

lemma put_rows_length: "put_rows G ps = (res, G') \<Longrightarrow> length G' = length G"
proof (induction ps arbitrary: G)
  case Nil
  then show ?case by simp
next
  case (Cons p ps)
  obtain i r where p: "p = (i, r)" by (cases p)
  show ?case
  proof (cases "- int (length G) \<le> i \<and> i < int (length G)")
    case True
    with Cons.prems p have "put_rows (G[row_of (length G) i := r]) ps = (res, G')" by simp
    from Cons.IH [OF this] show ?thesis by simp
  next
    case False
    with Cons.prems p show ?thesis by auto
  qed
qed

lemma put_rows_frame:
  "put_rows G ps = (res, G') \<Longrightarrow> j \<notin> row_of (length G) ` fst ` set ps \<Longrightarrow> G' ! j = G ! j"
proof (induction ps arbitrary: G)
  case Nil
  then show ?case by simp
next
  case (Cons p ps)
  obtain i r where p: "p = (i, r)" by (cases p)
  show ?case
  proof (cases "- int (length G) \<le> i \<and> i < int (length G)")
    case True
    let ?H = "G[row_of (length G) i := r]"
    from True Cons.prems p have run: "put_rows ?H ps = (res, G')" by simp
    from Cons.prems(2) have "j \<notin> row_of (length ?H) ` fst ` set ps" by simp
    from Cons.IH [OF run this] have "G' ! j = ?H ! j" .
    moreover from Cons.prems(2) p have "j \<noteq> row_of (length G) i" by auto
    ultimately show ?thesis by simp
  next
    case False
    with Cons.prems p show ?thesis by auto
  qed
qed

lemma put_rows_agree:
  "length H = length G \<Longrightarrow>
   (\<forall>j<length G. j \<notin> row_of (length G) ` fst ` set ps \<longrightarrow> H ! j = G ! j) \<Longrightarrow>
   put_rows G ps = (Inr (), G') \<Longrightarrow> put_rows H ps = (Inr (), G')"
proof (induction ps arbitrary: G H)
  case Nil
  then have "H = G" by (auto intro: nth_equalityI)
  with Nil show ?case by simp
next
  case (Cons p ps)
  obtain i r where p: "p = (i, r)" by (cases p)
  show ?case
  proof (cases "- int (length G) \<le> i \<and> i < int (length G)")
    case True
    let ?k = "row_of (length G) i"
    from True have k: "?k < length G" by (simp add: row_of_less)
    from True Cons.prems(3) p have run: "put_rows (G[?k := r]) ps = (Inr (), G')" by simp
    have len: "length (H[?k := r]) = length (G[?k := r])" using Cons.prems(1) by simp
    have agree: "\<forall>j<length (G[?k := r]).
        j \<notin> row_of (length (G[?k := r])) ` fst ` set ps \<longrightarrow> (H[?k := r]) ! j = (G[?k := r]) ! j"
    proof (intro allI impI)
      fix j assume j: "j < length (G[?k := r])"
        and out: "j \<notin> row_of (length (G[?k := r])) ` fst ` set ps"
      show "(H[?k := r]) ! j = (G[?k := r]) ! j"
      proof (cases "j = ?k")
        case True
        with k Cons.prems(1) show ?thesis by simp
      next
        case False
        with out p have "j \<notin> row_of (length G) ` fst ` set (p # ps)" by auto
        with Cons.prems(2) j have "H ! j = G ! j" by simp
        with False show ?thesis by simp
      qed
    qed
    from Cons.IH [OF len agree run] True p Cons.prems(1) show ?thesis by simp
  next
    case False
    with Cons.prems(3) p show ?thesis by auto
  qed
qed

lemma broadcast_to_length: "broadcast_to n P v = Some rs \<Longrightarrow> length rs = n"
  by (auto simp: broadcast_to_def split: if_splits)

lemma fst_set_zip: "length xs = length ys \<Longrightarrow> fst ` set (zip xs ys) = set xs"
  by (metis map_fst_zip set_map)

lemma put_rows_rerun:
  "length H = length G \<Longrightarrow> (\<forall>j<length G. H ! j = G ! j \<or> H ! j = G' ! j) \<Longrightarrow>
   put_rows G ps = (res, G') \<Longrightarrow> put_rows H ps = (res, G')"
proof (induction ps arbitrary: G H)
  case Nil
  then have "H = G" by (auto intro: nth_equalityI)
  with Nil show ?case by simp
next
  case (Cons p ps)
  obtain i r where p: "p = (i, r)" by (cases p)
  show ?case
  proof (cases "- int (length G) \<le> i \<and> i < int (length G)")
    case True
    let ?k = "row_of (length G) i"
    from True have k: "?k < length G" by (simp add: row_of_less)
    from True Cons.prems(3) p have steps: "put_rows (G[?k := r]) ps = (res, G')" by simp
    have len: "length (H[?k := r]) = length (G[?k := r])" using Cons.prems(1) by simp
    have near: "\<forall>j<length (G[?k := r]).
        (H[?k := r]) ! j = (G[?k := r]) ! j \<or> (H[?k := r]) ! j = G' ! j"
    proof (intro allI impI)
      fix j assume j: "j < length (G[?k := r])"
      show "(H[?k := r]) ! j = (G[?k := r]) ! j \<or> (H[?k := r]) ! j = G' ! j"
      proof (cases "j = ?k")
        case True
        with k Cons.prems(1) show ?thesis by simp
      next
        case False
        with Cons.prems(2) j show ?thesis by simp
      qed
    qed
    from Cons.IH [OF len near steps] True p Cons.prems(1) show ?thesis by simp
  next
    case False
    with Cons.prems(3) p have G': "G' = G" and res: "res = Inl IndexError" by auto
    with Cons.prems(1,2) have "H = G" by (auto intro: nth_equalityI)
    with False p G' res show ?thesis by auto
  qed
qed

lemma setitem_Some:
  "setitem cst G (Some ixs) v = (res, G') \<longleftrightarrow>
     (case broadcast_to (length ixs) (t_cols G) v of
        None \<Rightarrow> res = Inl RuntimeError \<and> G' = G
      | Some rs \<Rightarrow>
          (if t_dtype v \<noteq> t_dtype G then res = Inl RuntimeError \<and> G' = G
           else (\<exists>rows'. put_rows (t_rows G) (zip ixs rs) = (res, rows')
                   \<and> G' = G\<lparr>t_rows := rows'\<rparr>)))"
  by (auto simp: setitem_def split: option.splits prod.splits)

lemma setitem_None:
  "setitem cst G None v = (res, G') \<longleftrightarrow>
     (case broadcast_to (length (t_rows G)) (t_cols G) v of
        None \<Rightarrow> res = Inl RuntimeError \<and> G' = G
      | Some rs \<Rightarrow> res = Inr () \<and> G' = G\<lparr>t_rows := map (map (cst (t_dtype G))) rs\<rparr>)"
  by (auto simp: setitem_def split: option.splits)

lemma setitem_shape:
  "setitem cst G inds v = (res, G') \<Longrightarrow> shape G' = shape G \<and> t_dtype G' = t_dtype G"
  by (cases inds)
    (auto simp: setitem_Some setitem_None shape_def broadcast_to_length put_rows_length
      split: option.splits if_splits)

lemma setitem_overwrite:
  assumes one: "setitem cst G inds v1 = (Inr (), G1)"
    and two: "setitem cst G1 inds v2 = (Inr (), G2)"
  shows "setitem cst G inds v2 = (Inr (), G2)"
proof (cases inds)
  case None
  from one None obtain rs where "G1 = G\<lparr>t_rows := rs\<rparr>" "length rs = length (t_rows G)"
    by (auto simp: setitem_None broadcast_to_length split: option.splits)
  then show ?thesis using two None
    by (auto simp: setitem_None split: option.splits)
next
  case (Some ixs)
  from one Some obtain rs1 rows1 where b1: "broadcast_to (length ixs) (t_cols G) v1 = Some rs1"
    and run1: "put_rows (t_rows G) (zip ixs rs1) = (Inr (), rows1)"
    and G1: "G1 = G\<lparr>t_rows := rows1\<rparr>"
    by (auto simp: setitem_Some split: option.splits if_splits)
  from two Some G1 obtain rs2 rows2 where b2: "broadcast_to (length ixs) (t_cols G) v2 = Some rs2"
    and d2: "t_dtype v2 = t_dtype G"
    and run2: "put_rows rows1 (zip ixs rs2) = (Inr (), rows2)"
    and G2: "G2 = G\<lparr>t_rows := rows2\<rparr>"
    by (auto simp: setitem_Some split: option.splits if_splits)
  have len: "length rows1 = length (t_rows G)" using run1 by (rule put_rows_length)
  have pos1: "fst ` set (zip ixs rs1) = set ixs"
    using b1 by (simp add: fst_set_zip broadcast_to_length)
  have pos2: "fst ` set (zip ixs rs2) = set ixs"
    using b2 by (simp add: fst_set_zip broadcast_to_length)
  have agree: "\<forall>j<length rows1.
      j \<notin> row_of (length rows1) ` fst ` set (zip ixs rs2) \<longrightarrow> t_rows G ! j = rows1 ! j"
    using put_rows_frame [OF run1] pos1 pos2 len by auto
  from put_rows_agree [OF len [symmetric] agree run2]
  have "put_rows (t_rows G) (zip ixs rs2) = (Inr (), rows2)" .
  then show ?thesis using Some b2 d2 G2 by (simp add: setitem_Some)
qed

lemma setitem_idem:
  assumes one: "setitem cst G inds v = (res, G1)"
  shows "setitem cst G1 inds v = (res, G1)"
proof (cases inds)
  case None
  with one show ?thesis
    by (auto simp: setitem_None broadcast_to_length split: option.splits)
next
  case (Some ixs)
  show ?thesis
  proof (cases "broadcast_to (length ixs) (t_cols G) v")
    case None
    with one Some show ?thesis by (simp add: setitem_Some)
  next
    case rs: (Some rs)
    show ?thesis
    proof (cases "t_dtype v = t_dtype G")
      case False
      with one Some rs show ?thesis by (simp add: setitem_Some)
    next
      case True
      with one Some rs obtain rows1 where steps: "put_rows (t_rows G) (zip ixs rs) = (res, rows1)"
        and G1: "G1 = G\<lparr>t_rows := rows1\<rparr>" by (auto simp: setitem_Some)
      have len: "length rows1 = length (t_rows G)" using steps by (rule put_rows_length)
      from put_rows_rerun [OF len _ steps]
      have "put_rows rows1 (zip ixs rs) = (res, rows1)" by simp
      with Some rs True G1 show ?thesis by (simp add: setitem_Some)
    qed
  qed
qed

lemma put_rows_untouched:
  "put_rows G ps = (res, G') \<Longrightarrow>
   \<forall>i \<in> fst ` set ps. i \<noteq> int j \<and> i \<noteq> int j - int (length G) \<Longrightarrow> G' ! j = G ! j"
proof (induction ps arbitrary: G)
  case Nil
  then show ?case by simp
next
  case (Cons p ps)
  obtain i r where p: "p = (i, r)" by (cases p)
  show ?case
  proof (cases "- int (length G) \<le> i \<and> i < int (length G)")
    case True
    let ?H = "G[row_of (length G) i := r]"
    from True Cons.prems(1) p have steps: "put_rows ?H ps = (res, G')" by simp
    from Cons.prems(2) have "\<forall>i \<in> fst ` set ps. i \<noteq> int j \<and> i \<noteq> int j - int (length ?H)"
      by simp
    from Cons.IH [OF steps this] have "G' ! j = ?H ! j" .
    moreover from Cons.prems(2) p have "i \<noteq> int j" "i \<noteq> int j - int (length G)" by auto
    with True have "row_of (length G) i \<noteq> j" by (auto simp: row_of_def)
    ultimately show ?thesis by simp
  next
    case False
    with Cons.prems(1) p show ?thesis by auto
  qed
qed

lemma put_rows_written:
  "put_rows G ps = (Inr (), G') \<Longrightarrow> distinct (map (\<lambda>p. row_of (length G) (fst p)) ps) \<Longrightarrow>
   (i, r) \<in> set ps \<Longrightarrow> G' ! row_of (length G) i = r"
proof (induction ps arbitrary: G)
  case Nil
  then show ?case by simp
next
  case (Cons p ps)
  obtain i0 r0 where p: "p = (i0, r0)" by (cases p)
  let ?k = "row_of (length G) i0"
  let ?H = "G[?k := r0]"
  from Cons.prems(1) p have valid: "- int (length G) \<le> i0 \<and> i0 < int (length G)"
    by (auto split: if_splits)
  with Cons.prems(1) p have steps: "put_rows ?H ps = (Inr (), G')" by simp
  from Cons.prems(2) p have fresh: "?k \<notin> row_of (length ?H) ` fst ` set ps"
    and dist: "distinct (map (\<lambda>p. row_of (length ?H) (fst p)) ps)" by auto
  show ?case
  proof (cases "(i, r) \<in> set ps")
    case True
    from Cons.IH [OF steps dist True] show ?thesis by simp
  next
    case False
    with Cons.prems(3) p have eq: "i = i0" "r = r0" by auto
    from put_rows_frame [OF steps fresh] have "G' ! ?k = ?H ! ?k" .
    with valid eq show ?thesis by (simp add: row_of_less)
  qed
qed

lemma setitem_untouched:
  assumes "setitem cst G (Some ixs) v = (res, G')"
    and "int j \<notin> set ixs" and "int j - int (length (t_rows G)) \<notin> set ixs"
  shows "t_rows G' ! j = t_rows G ! j"
proof (cases "\<exists>rs rows'. put_rows (t_rows G) (zip ixs rs) = (res, rows')
                 \<and> G' = G\<lparr>t_rows := rows'\<rparr>")
  case False
  with assms(1) have "G' = G" by (auto simp: setitem_Some split: option.splits if_splits)
  then show ?thesis by simp
next
  case True
  then obtain rs rows' where steps: "put_rows (t_rows G) (zip ixs rs) = (res, rows')"
    and G': "G' = G\<lparr>t_rows := rows'\<rparr>" by blast
  have "fst ` set (zip ixs rs) \<subseteq> set ixs" by (auto dest: set_zip_leftD)
  with assms(2,3)
  have "\<forall>i \<in> fst ` set (zip ixs rs). i \<noteq> int j \<and> i \<noteq> int j - int (length (t_rows G))"
    by blast
  from put_rows_untouched [OF steps this] G' show ?thesis by simp
qed

lemma setitem_written:
  assumes "setitem cst G (Some ixs) v = (Inr (), G')"
    and "length (t_rows v) = length ixs" and "t_cols v = t_cols G"
    and "distinct (map (row_of (length (t_rows G))) ixs)" and "k < length ixs"
  shows "t_rows G' ! row_of (length (t_rows G)) (ixs ! k) = t_rows v ! k"
proof -
  have "map (expand_row (t_cols v) v) (t_rows v) = t_rows v"
    by (rule map_idI) (simp add: expand_row_def)
  with assms(2,3) have b: "broadcast_to (length ixs) (t_cols G) v = Some (t_rows v)"
    by (simp add: broadcast_to_def)
  let ?ps = "zip ixs (t_rows v)"
  from assms(1) b have steps: "put_rows (t_rows G) ?ps = (Inr (), t_rows G')"
    by (auto simp: setitem_Some split: if_splits)
  have "map (\<lambda>p. row_of (length (t_rows G)) (fst p)) ?ps
           = map (row_of (length (t_rows G))) (map fst ?ps)" by (simp add: comp_def)
  also have "map fst ?ps = ixs" using assms(2) by (simp add: map_fst_zip)
  finally have m: "map (\<lambda>p. row_of (length (t_rows G)) (fst p)) ?ps
           = map (row_of (length (t_rows G))) ixs" .
  have mem: "(ixs ! k, t_rows v ! k) \<in> set ?ps"
    using assms(2,5) by (auto simp: set_zip intro!: exI [of _ k])
  from put_rows_written [OF steps _ mem] assms(4) m show ?thesis by simp
qed

section \<open>Construction\<close>

lemma TRAKer_init_grads:
  assumes "TRAKer_init dflt a = Inr tr"
  shows "0 \<le> a_train_set_size a \<and> 0 \<le> a_proj_dim a
         \<and> grads tr = zeros dflt (nat (a_train_set_size a)) (nat (a_proj_dim a))"
  using assms
  by (auto simp: TRAKer_init_def ch_zeros_def split: sum.splits if_splits)

lemma ex_init: "TRAKer_init Float32 ex_args = Inr ex_tr"
  by (simp add: ex_tr_def TRAKer_init_def ex_args_def default_args_def BasicProjector_def
      parameters_to_vector_def ex_model_def ch_zeros_def)

text \<open>
  C7. Immediately after construction the Feature Store is exactly all-zero and has
  shape (train_set_size, proj_dim): whenever \<^verbatim>\<open>__init__\<close> returns an object, its
  table has \<open>train_set_size\<close> rows and \<open>proj_dim\<close> columns, every row has
  \<open>proj_dim\<close> entries, and every entry is zero.
\<close>

theorem store_initialization:
  assumes "TRAKer_init dflt a = Inr tr"
  shows "shape (grads tr) = (nat (a_train_set_size a), nat (a_proj_dim a))
         \<and> int (fst (shape (grads tr))) = a_train_set_size a
         \<and> int (snd (shape (grads tr))) = a_proj_dim a
         \<and> (\<forall>r \<in> set (t_rows (grads tr)). length r = nat (a_proj_dim a) \<and> (\<forall>x \<in> set r. x = 0))"
  using TRAKer_init_grads [OF assms]
  by (auto simp: zeros_def shape_def)

theorem store_initialization_witness:
  "TRAKer_init Float32 ex_args = Inr ex_tr
   \<and> shape (grads ex_tr) = (5, 2)
   \<and> t_rows (grads ex_tr) = [[0, 0], [0, 0], [0, 0], [0, 0], [0, 0]]"
proof -
  have z: "grads ex_tr = zeros Float32 5 2"
    using TRAKer_init_grads [OF ex_init] by (simp add: ex_args_def default_args_def)
  have "shape (grads ex_tr) = (nat (a_train_set_size ex_args), nat (a_proj_dim ex_args))"
    using store_initialization [OF ex_init] by blast
  then have "shape (grads ex_tr) = (5, 2)" by (simp add: ex_args_def default_args_def)
  moreover have "t_rows (grads ex_tr) = [[0, 0], [0, 0], [0, 0], [0, 0], [0, 0]]"
    using z by (simp add: zeros_def numeral_eq_Suc)
  ultimately show ?thesis using ex_init by simp
qed

section \<open>Recording gradients\<close>

lemma record_grads_cases:
  assumes "record_grads cst tr g inds = (res, tr')"
  shows "tr' = tr \<or> (\<exists>pg G'. projector tr (to cst (grad_dtype tr) g) = Inr pg
            \<and> setitem cst (grads tr) inds pg = (res, G') \<and> tr' = tr\<lparr>grads := G'\<rparr>)"
  using assms
  by (auto simp: record_grads_def detach_clone_cpu_def split: sum.splits prod.splits)

lemma record_grads_shape:
  assumes "record_grads cst tr g inds = (res, tr')"
  shows "shape (grads tr') = shape (grads tr) \<and> t_dtype (grads tr') = t_dtype (grads tr)"
  using record_grads_cases [OF assms] by (auto dest: setitem_shape)

lemma record_grads_untouched:
  assumes "record_grads cst tr g (Some ixs) = (res, tr')"
    and "int j \<notin> set ixs" and "int j - int (length (t_rows (grads tr))) \<notin> set ixs"
  shows "t_rows (grads tr') ! j = t_rows (grads tr) ! j"
  using record_grads_cases [OF assms(1)] assms(2,3) by (auto dest: setitem_untouched)

lemma record_grads_Inr:
  "record_grads cst tr g inds = (Inr (), tr') \<longleftrightarrow>
   (\<exists>pg G'. projector tr (to cst (grad_dtype tr) g) = Inr pg
      \<and> setitem cst (grads tr) inds pg = (Inr (), G') \<and> tr' = tr\<lparr>grads := G'\<rparr>)"
  by (auto simp: record_grads_def detach_clone_cpu_def split: sum.splits prod.splits)

lemma record_grads_overwrite:
  assumes one: "record_grads cst tr g1 inds = (Inr (), tr1)"
    and two: "record_grads cst tr1 g2 inds = (Inr (), tr2)"
  shows "record_grads cst tr g2 inds = (Inr (), tr2)"
proof -
  from one obtain pg1 G1 where s1: "setitem cst (grads tr) inds pg1 = (Inr (), G1)"
    and tr1: "tr1 = tr\<lparr>grads := G1\<rparr>" unfolding record_grads_Inr by blast
  from two tr1 obtain pg2 G2 where p2: "projector tr (to cst (grad_dtype tr) g2) = Inr pg2"
    and s2: "setitem cst G1 inds pg2 = (Inr (), G2)" and tr2: "tr2 = tr\<lparr>grads := G2\<rparr>"
    unfolding record_grads_Inr by auto
  from setitem_overwrite [OF s1 s2] p2 tr2 show ?thesis unfolding record_grads_Inr by blast
qed

lemma record_grads_idem:
  assumes one: "record_grads cst tr g inds = (res, tr1)"
  shows "record_grads cst tr1 g inds = (res, tr1)"
proof (cases "projector tr (to cst (grad_dtype tr) g)")
  case (Inl e)
  with one show ?thesis by (auto simp: record_grads_def)
next
  case (Inr pg)
  with one obtain G1 where s1: "setitem cst (grads tr) inds pg = (res, G1)"
    and tr1: "tr1 = tr\<lparr>grads := G1\<rparr>"
    by (auto simp: record_grads_def detach_clone_cpu_def split: prod.splits)
  from setitem_idem [OF s1] Inr tr1 show ?thesis
    by (simp add: record_grads_def detach_clone_cpu_def)
qed

section \<open>The featurization pass\<close>

lemma featurize_functional_cases:
  assumes "featurize_functional ev tr outf w b batch inds = (res, tr')"
  shows "(tr' = tr \<and> isl res)
       \<or> (\<exists>grad gs r. functorch ev = Some grad
             \<and> vmap (grad (on_sample outf)) w b batch = Inr gs
             \<and> record_grads (cast ev) tr
                  (vectorize_and_ignore_buffers (default_dtype ev) gs) inds = (r, tr')
             \<and> res = (case r of Inl e \<Rightarrow> Inl e | Inr u \<Rightarrow> Inr PyNone))"
  using assms
  by (auto simp: featurize_functional_def split: option.splits sum.splits prod.splits)

lemma featurize_functional_Inr:
  "featurize_functional ev tr outf w b batch inds = (Inr v, tr') \<longleftrightarrow>
   (\<exists>grad gs. functorch ev = Some grad
       \<and> vmap (grad (on_sample outf)) w b batch = Inr gs
       \<and> record_grads (cast ev) tr
            (vectorize_and_ignore_buffers (default_dtype ev) gs) inds = (Inr (), tr')
       \<and> v = PyNone)"
  by (auto simp: featurize_functional_def split: option.splits sum.splits prod.splits)

lemma featurize_iter_branch:
  "featurize ev tr outf lf mdl batch inds False =
     (Inl (case featurize_iter ev tr outf mdl batch inds of Inl e \<Rightarrow> e | Inr g \<Rightarrow> AttributeError), tr)"
  by (simp add: featurize_def split: sum.splits)

lemma featurize_functional_branch:
  "featurize ev tr outf lf mdl batch inds True =
     (case unpack3 mdl of
        Inl e \<Rightarrow> (Inl e, tr)
      | Inr (fm, w, b) \<Rightarrow>
          (case featurize_functional ev tr outf w b batch inds of
             (Inl e, tr') \<Rightarrow> (Inl e, tr')
           | (Inr u, tr') \<Rightarrow>
               (case get_loss_grad_functional tr' fm w b batch inds of
                  Inl e \<Rightarrow> (Inl e, tr')
                | Inr lg \<Rightarrow> (Inr PyNone, tr'))))"
  by (simp add: featurize_def)

lemma unpack_items_Inr: "unpack_items xs = Inr (fm, w, b) \<Longrightarrow> fm = not_callable"
  by (auto simp: unpack_items_def split: list.splits)

lemma unpack3_Inr:
  "unpack3 mdl = Inr (fm, w, b) \<Longrightarrow> mdl = FunctionalModel fm w b \<or> fm = not_callable"
  by (cases mdl) (auto simp: unpack3_def dest: unpack_items_Inr)

lemma unpack3_FunctionalModel:
  "unpack3 (FunctionalModel fm w b) = Inr (fm', w', b') \<longleftrightarrow> fm' = fm \<and> w' = w \<and> b' = b"
  by (auto simp: unpack3_def)

lemma get_loss_grad_not_callable:
  "get_loss_grad_functional tr not_callable w b batch inds \<noteq> Inr lg"
  by (auto simp: get_loss_grad_functional_def not_callable_def split: list.splits)

lemma featurize_Inr:
  "featurize ev tr outf lf mdl batch inds functional = (Inr v, tr') \<longleftrightarrow>
   functional \<and> v = PyNone \<and>
   (\<exists>fm w b lg. mdl = FunctionalModel fm w b
       \<and> featurize_functional ev tr outf w b batch inds = (Inr PyNone, tr')
       \<and> get_loss_grad_functional tr' fm w b batch inds = Inr lg)"
proof (cases functional)
  case False
  then show ?thesis by (simp add: featurize_iter_branch)
next
  case True
  show ?thesis
  proof (cases "unpack3 mdl")
    case (Inl e)
    then have "\<nexists>fm w b. mdl = FunctionalModel fm w b" by (auto simp: unpack3_def)
    with True Inl show ?thesis by (simp add: featurize_functional_branch)
  next
    case (Inr p)
    obtain fm w b where p: "p = (fm, w, b)" by (cases p)
    obtain r1 t1 where ff: "featurize_functional ev tr outf w b batch inds = (r1, t1)"
      by (cases "featurize_functional ev tr outf w b batch inds")
    show ?thesis
    proof (cases "mdl = FunctionalModel fm w b")
      case mdl: True
      show ?thesis
      proof (cases r1)
        case (Inl e)
        with True mdl ff show ?thesis by (simp add: featurize_functional_branch unpack3_def)
      next
        case (Inr u)
        with ff have "featurize_functional ev tr outf w b batch inds = (Inr u, t1)" by simp
        then have "u = PyNone" unfolding featurize_functional_Inr by blast
        with Inr True mdl ff show ?thesis
          by (auto simp: featurize_functional_branch unpack3_def split: sum.splits)
      qed
    next
      case False
      with Inr p unpack3_Inr [of mdl fm w b] have nc: "fm = not_callable" by simp
      from False Inr p have none: "\<nexists>fm' w' b'. mdl = FunctionalModel fm' w' b'"
        by (auto simp: unpack3_def)
      have "fst (featurize ev tr outf lf mdl batch inds True) \<noteq> Inr v"
        using Inr p nc ff get_loss_grad_not_callable [of t1 w b batch inds]
        by (cases r1) (auto simp: featurize_functional_branch split: sum.splits)
      with True none show ?thesis by (metis fst_conv)
    qed
  qed
qed

lemma featurize_state:
  assumes "featurize ev tr outf lf mdl batch inds functional = (res, tr')"
  shows "tr' = tr \<or> (\<exists>g r. record_grads (cast ev) tr g inds = (r, tr'))"
proof (cases functional)
  case False
  with assms show ?thesis by (simp add: featurize_iter_branch)
next
  case True
  show ?thesis
  proof (cases "unpack3 mdl")
    case (Inl e)
    with True assms show ?thesis by (simp add: featurize_functional_branch)
  next
    case (Inr p)
    obtain fm w b where p: "p = (fm, w, b)" by (cases p)
    obtain r1 t1 where ff: "featurize_functional ev tr outf w b batch inds = (r1, t1)"
      by (cases "featurize_functional ev tr outf w b batch inds")
    with True Inr p assms have "tr' = t1"
      by (auto simp: featurize_functional_branch split: sum.splits)
    with featurize_functional_cases [OF ff] show ?thesis by blast
  qed
qed

lemma featurize_shape:
  assumes "featurize ev tr outf lf mdl batch inds functional = (res, tr')"
  shows "shape (grads tr') = shape (grads tr) \<and> t_dtype (grads tr') = t_dtype (grads tr)"
  using featurize_state [OF assms] by (auto dest: record_grads_shape)

lemma step_shape:
  "shape (grads (step ev tr c)) = shape (grads tr)
   \<and> t_dtype (grads (step ev tr c)) = t_dtype (grads tr)"
proof (cases c)
  case (Featurize outf lf mdl batch inds functional)
  then show ?thesis
    using featurize_shape [of ev tr outf lf mdl batch inds functional] 
    by (metis prod.collapse step.simps(1))
next
  case (RecordGrads g inds)
  then show ?thesis
    using record_grads_shape [of "cast ev" tr g inds] by (metis prod.collapse step.simps(2))
next
  case Finalize
  then show ?thesis by (simp add: finalize_def)
next
  case Score
  then show ?thesis by (simp add: score_def)
qed

lemma run_shape:
  "shape (grads (run ev tr cs)) = shape (grads tr)
   \<and> t_dtype (grads (run ev tr cs)) = t_dtype (grads tr)"
  unfolding run_def
  by (induction cs arbitrary: tr) (simp_all add: step_shape)

lemma featurize_untouched:
  assumes "featurize ev tr outf lf mdl batch (Some ixs) functional = (res, tr')"
    and "int j \<notin> set ixs" and "int j - int (length (t_rows (grads tr))) \<notin> set ixs"
  shows "t_rows (grads tr') ! j = t_rows (grads tr) ! j"
  using featurize_state [OF assms(1)] assms(2,3) by (auto dest: record_grads_untouched)

section \<open>The concrete run, evaluated\<close>

lemma ex_record_1:
  "fst (record_grads ex_cast ex_tr ex_g1 ex_inds) = Inr ()"
  "grads ex_tr1 = \<lparr>t_dtype = Float32, t_cols = 2,
        t_rows = [[0, 0], [0, 0], [0, 0], [32, 56], [68, 128]]\<rparr>"
  by code_simp+

lemma ex_record_2:
  "fst (record_grads ex_cast ex_tr1 ex_g2 ex_inds) = Inr ()"
  "grads ex_tr2 = \<lparr>t_dtype = Float32, t_cols = 2,
        t_rows = [[0, 0], [0, 0], [0, 0], [26, 50], [35, 68]]\<rparr>"
  by code_simp+

lemma ex_feat:
  "fst (featurize ex_env ex_tr ex_out_fn () ex_func_model ex_batch ex_inds True) = Inr PyNone"
  "grads ex_tr_feat = \<lparr>t_dtype = Float32, t_cols = 2,
        t_rows = [[0, 0], [0, 0], [0, 0], [80, 140], [168, 294]]\<rparr>"
  by code_simp+

lemma ex_tr_grads: "grads ex_tr = \<lparr>t_dtype = Float32, t_cols = 2,
        t_rows = [[0, 0], [0, 0], [0, 0], [0, 0], [0, 0]]\<rparr>"
  by code_simp

text \<open>
  C5. Calling RecordGrads twice with the same inds and different gradient matrices
  leaves the Feature Store holding only the projection of the second call's data at
  those rows: after two successful calls the object is exactly the one the second call
  alone produces from the original object (nothing of the first call remains, nothing
  is summed), and with pairwise different row indices row \<open>inds[k]\<close> is the \<open>k\<close>-th
  projected row of the second call.
\<close>

theorem record_grads_latest_write_wins:
  assumes "record_grads cst tr g1 inds = (Inr (), tr1)"
    and "record_grads cst tr1 g2 inds = (Inr (), tr2)"
  shows "record_grads cst tr g2 inds = (Inr (), tr2)
       \<and> (\<forall>ixs pg k. inds = Some ixs
              \<and> projector tr (to cst (grad_dtype tr) g2) = Inr pg
              \<and> length (t_rows pg) = length ixs \<and> t_cols pg = t_cols (grads tr)
              \<and> distinct (map (row_of (length (t_rows (grads tr)))) ixs) \<and> k < length ixs
            \<longrightarrow> t_rows (grads tr2) ! row_of (length (t_rows (grads tr))) (ixs ! k)
                  = t_rows pg ! k)"
proof -
  have alone: "record_grads cst tr g2 inds = (Inr (), tr2)"
    using assms by (rule record_grads_overwrite)
  have "t_rows (grads tr2) ! row_of (length (t_rows (grads tr))) (ixs ! k) = t_rows pg ! k"
    if h: "inds = Some ixs" "projector tr (to cst (grad_dtype tr) g2) = Inr pg"
      "length (t_rows pg) = length ixs" "t_cols pg = t_cols (grads tr)"
      "distinct (map (row_of (length (t_rows (grads tr)))) ixs)" "k < length ixs"
    for ixs pg k
  proof -
    from alone h(1,2) obtain G' where s: "setitem cst (grads tr) (Some ixs) pg = (Inr (), G')"
      and tr2: "tr2 = tr\<lparr>grads := G'\<rparr>" unfolding record_grads_Inr by auto
    from setitem_written [OF s h(3,4,5,6)] tr2 show ?thesis by simp
  qed
  with alone show ?thesis by blast
qed

theorem record_grads_latest_write_wins_witness:
  "record_grads ex_cast ex_tr ex_g1 ex_inds = (Inr (), ex_tr1)
   \<and> record_grads ex_cast ex_tr1 ex_g2 ex_inds = (Inr (), ex_tr2)
   \<and> record_grads ex_cast ex_tr ex_g2 ex_inds = (Inr (), ex_tr2)
   \<and> t_rows (grads ex_tr1) = [[0, 0], [0, 0], [0, 0], [32, 56], [68, 128]]
   \<and> t_rows (grads ex_tr2) = [[0, 0], [0, 0], [0, 0], [26, 50], [35, 68]]"
proof -
  have h1: "record_grads ex_cast ex_tr ex_g1 ex_inds = (Inr (), ex_tr1)"
    using ex_record_1(1) by (simp add: ex_tr1_def prod_eq_iff)
  have h2: "record_grads ex_cast ex_tr1 ex_g2 ex_inds = (Inr (), ex_tr2)"
    using ex_record_2(1) by (simp add: ex_tr2_def prod_eq_iff)
  from record_grads_latest_write_wins [OF h1 h2]
  have "record_grads ex_cast ex_tr ex_g2 ex_inds = (Inr (), ex_tr2)" by blast
  with h1 h2 show ?thesis by (simp add: ex_record_1(2) ex_record_2(2))
qed

text \<open>
  C6. RecordGrads modifies only the Feature Store rows whose indices appear in inds:
  a row \<open>j\<close> that no entry of inds denotes (neither \<open>j\<close> itself nor Python's
  negative alias \<open>j - N\<close>) is unchanged, whatever the outcome of the call, and the
  same holds for a whole Featurize call; the shape of the table is the same after any
  sequence of calls on the object.
\<close>

theorem record_grads_frame:
  "(record_grads cst tr g (Some ixs) = (res, tr') \<longrightarrow>
      int j \<notin> set ixs \<longrightarrow> int j - int (length (t_rows (grads tr))) \<notin> set ixs \<longrightarrow>
      t_rows (grads tr') ! j = t_rows (grads tr) ! j)
   \<and> (featurize ev tr outf lf mdl batch (Some ixs) functional = (fres, ftr) \<longrightarrow>
      int j \<notin> set ixs \<longrightarrow> int j - int (length (t_rows (grads tr))) \<notin> set ixs \<longrightarrow>
      t_rows (grads ftr) ! j = t_rows (grads tr) ! j)
   \<and> shape (grads (run ev tr cs)) = shape (grads tr)"
  using record_grads_untouched [of cst tr g ixs res tr' j]
    featurize_untouched [of ev tr outf lf mdl batch ixs functional fres ftr j]
    run_shape [of ev tr cs]
  by blast

theorem record_grads_frame_witness:
  "t_rows (grads ex_tr) = [[0, 0], [0, 0], [0, 0], [0, 0], [0, 0]]
   \<and> t_rows (grads ex_tr_feat) ! 0 = [0, 0]
   \<and> t_rows (grads ex_tr_feat) ! 1 = [0, 0]
   \<and> t_rows (grads ex_tr_feat) ! 2 = [0, 0]
   \<and> t_rows (grads ex_tr_feat) ! 3 = [80, 140]
   \<and> t_rows (grads ex_tr_feat) ! 4 = [168, 294]
   \<and> shape (grads ex_tr) = (5, 2)
   \<and> shape (grads (run ex_env ex_tr ex_calls)) = (5, 2)"
proof -
  have f: "featurize ex_env ex_tr ex_out_fn () ex_func_model ex_batch (Some [3, 4]) True
             = (Inr PyNone, ex_tr_feat)"
    using ex_feat(1) by (simp add: ex_tr_feat_def prod_eq_iff ex_inds_def)
  have r: "record_grads ex_cast ex_tr ex_g1 (Some [3, 4]) = (Inr (), ex_tr1)"
    using ex_record_1(1) by (simp add: ex_tr1_def prod_eq_iff ex_inds_def)
  have len: "length (t_rows (grads ex_tr)) = 5" by (simp add: ex_tr_grads)
  have keep: "t_rows (grads ex_tr_feat) ! j = t_rows (grads ex_tr) ! j"
    if "int j \<notin> set [3, 4]" "int j - 5 \<notin> set [3, 4 :: int]" for j
    using record_grads_frame [of ex_cast ex_tr ex_g1 "[3, 4]" "Inr ()" ex_tr1 j
        ex_env ex_out_fn "()" ex_func_model ex_batch True "Inr PyNone" ex_tr_feat ex_calls]
      f r that len by simp
  have "shape (grads (run ex_env ex_tr ex_calls)) = shape (grads ex_tr)"
    using record_grads_frame [of ex_cast ex_tr ex_g1 "[3, 4]" "Inr ()" ex_tr1 0
        ex_env ex_out_fn "()" ex_func_model ex_batch True "Inr PyNone" ex_tr_feat ex_calls]
    by blast
  moreover have "shape (grads ex_tr) = (5, 2)" by (simp add: ex_tr_grads shape_def)
  moreover have "t_rows (grads ex_tr_feat) ! 0 = t_rows (grads ex_tr) ! 0"
    "t_rows (grads ex_tr_feat) ! 1 = t_rows (grads ex_tr) ! 1"
    "t_rows (grads ex_tr_feat) ! 2 = t_rows (grads ex_tr) ! 2"
    by (rule keep; simp)+
  ultimately show ?thesis by (simp add: ex_tr_grads ex_feat(2))
qed

section \<open>Dtypes\<close>

lemma TRAKer_init_fields:
  assumes "TRAKer_init dflt a = Inr tr"
  shows "grad_dtype tr = a_grad_dtype a"
    and "a_projector a (a_proj_seed a) (a_proj_dim a) (length (parameters_to_vector (a_model a)))
           (a_proj_type a) (a_grad_dtype a) (a_device a) = Inr (projector tr)"
    and "t_dtype (grads tr) = dflt"
  using assms
  by (auto simp: TRAKer_init_def ch_zeros_def zeros_def split: sum.splits if_splits)

lemma record_grads_only_dtype:
  "record_grads cst (tr\<lparr>projector := only_dtype (grad_dtype tr) (projector tr)\<rparr>) g inds
     = (fst (record_grads cst tr g inds),
        (snd (record_grads cst tr g inds))\<lparr>projector := only_dtype (grad_dtype tr) (projector tr)\<rparr>)"
  by (simp add: record_grads_def only_dtype_def to_def split: sum.splits prod.splits)

text \<open>
  What the code does with dtypes: the table has torch's default dtype, RecordGrads never
  changes it, and the gradients are converted to \<open>grad_dtype\<close> before projecting (a
  projector that refuses every tensor of another dtype behaves the same).
\<close>

lemma record_grads_dtype_facts:
  "(TRAKer_init dflt a = Inr tr0 \<longrightarrow>
      t_dtype (grads tr0) = dflt \<and> grad_dtype tr0 = a_grad_dtype a)
   \<and> t_dtype (grads (snd (record_grads cst tr g inds))) = t_dtype (grads tr)
   \<and> fst (record_grads cst (tr\<lparr>projector := only_dtype (grad_dtype tr) (projector tr)\<rparr>) g inds)
       = fst (record_grads cst tr g inds)
   \<and> grads (snd (record_grads cst
                    (tr\<lparr>projector := only_dtype (grad_dtype tr) (projector tr)\<rparr>) g inds))
       = grads (snd (record_grads cst tr g inds))"
proof -
  have "t_dtype (grads (snd (record_grads cst tr g inds))) = t_dtype (grads tr)"
    using record_grads_shape [of cst tr g inds] by (metis prod.collapse)
  then show ?thesis
    by (auto simp: record_grads_only_dtype dest: TRAKer_init_fields)
qed

lemma ex_init_f16: "TRAKer_init Float32 ex_args_f16 = Inr ex_tr_f16"
  by (simp add: ex_tr_f16_def TRAKer_init_def ex_args_f16_def default_args_def
      BasicProjector_def parameters_to_vector_def ex_model_def ch_zeros_def)

text \<open>
  C8 at the defaults (\<open>grad_dtype\<close> float16, torch's default dtype float32): the
  table is float32, not \<open>grad_dtype\<close>; RecordGrads converts the gradients to float16
  and projects them, and the write of the float16 rows into the float32 table at the
  indices 3 and 4 raises RuntimeError, leaving the table as it was.
\<close>

theorem store_dtype_not_grad_dtype:
  "TRAKer_init Float32 ex_args_f16 = Inr ex_tr_f16
   \<and> a_grad_dtype ex_args_f16 = Float16
   \<and> grad_dtype ex_tr_f16 = Float16
   \<and> t_dtype (grads ex_tr_f16) = Float32
   \<and> t_dtype (grads ex_tr_f16) \<noteq> grad_dtype ex_tr_f16
   \<and> to ex_cast (grad_dtype ex_tr_f16) ex_g2
       = \<lparr>t_dtype = Float16, t_cols = 3, t_rows = [[7, 8, 9], [10, 11, 12]]\<rparr>
   \<and> projector ex_tr_f16 (to ex_cast (grad_dtype ex_tr_f16) ex_g2)
       = Inr \<lparr>t_dtype = Float16, t_cols = 2, t_rows = [[26, 50], [35, 68]]\<rparr>
   \<and> fst (record_grads ex_cast ex_tr_f16 ex_g2 ex_inds) = Inl RuntimeError
   \<and> t_rows (grads (snd (record_grads ex_cast ex_tr_f16 ex_g2 ex_inds)))
       = [[0, 0], [0, 0], [0, 0], [0, 0], [0, 0]]"
proof -
  have "grad_dtype ex_tr_f16 = Float16" "t_dtype (grads ex_tr_f16) = Float32"
    "to ex_cast (grad_dtype ex_tr_f16) ex_g2
       = \<lparr>t_dtype = Float16, t_cols = 3, t_rows = [[7, 8, 9], [10, 11, 12]]\<rparr>"
    "projector ex_tr_f16 (to ex_cast (grad_dtype ex_tr_f16) ex_g2)
       = Inr \<lparr>t_dtype = Float16, t_cols = 2, t_rows = [[26, 50], [35, 68]]\<rparr>"
    "fst (record_grads ex_cast ex_tr_f16 ex_g2 ex_inds) = Inl RuntimeError"
    "t_rows (grads (snd (record_grads ex_cast ex_tr_f16 ex_g2 ex_inds)))
       = [[0, 0], [0, 0], [0, 0], [0, 0], [0, 0]]"
    by code_simp+
  with ex_init_f16 show ?thesis by (simp add: ex_args_f16_def default_args_def)
qed

section \<open>Running a call again\<close>

text \<open>
  The collaborators of a call are functions of their arguments here, so a call that is
  run again on the object it left has the same outcome and leaves the same object.
\<close>

lemma featurize_functional_rerun:
  assumes "featurize_functional ev tr outf w b batch inds = (res, tr')"
  shows "featurize_functional ev tr' outf w b batch inds = (res, tr')"
proof -
  from featurize_functional_cases [OF assms] show ?thesis
  proof
    assume "tr' = tr \<and> isl res"
    with assms show ?thesis by simp
  next
    assume "\<exists>grad gs r. functorch ev = Some grad
             \<and> vmap (grad (on_sample outf)) w b batch = Inr gs
             \<and> record_grads (cast ev) tr
                  (vectorize_and_ignore_buffers (default_dtype ev) gs) inds = (r, tr')
             \<and> res = (case r of Inl e \<Rightarrow> Inl e | Inr u \<Rightarrow> Inr PyNone)"
    then obtain grad gs r where ft: "functorch ev = Some grad"
      and vm: "vmap (grad (on_sample outf)) w b batch = Inr gs"
      and rg: "record_grads (cast ev) tr
                  (vectorize_and_ignore_buffers (default_dtype ev) gs) inds = (r, tr')"
      and res: "res = (case r of Inl e \<Rightarrow> Inl e | Inr u \<Rightarrow> Inr PyNone)" by blast
    from record_grads_idem [OF rg] ft vm res show ?thesis
      by (simp add: featurize_functional_def split: sum.splits)
  qed
qed

lemma featurize_rerun:
  assumes "featurize ev tr outf lf mdl batch inds functional = (res, tr')"
  shows "featurize ev tr' outf lf mdl batch inds functional = (res, tr')"
proof (cases functional)
  case False
  with assms have "tr' = tr" by (simp add: featurize_iter_branch)
  with assms show ?thesis by simp
next
  case True
  show ?thesis
  proof (cases "unpack3 mdl")
    case (Inl e)
    with True assms show ?thesis by (simp add: featurize_functional_branch)
  next
    case (Inr p)
    obtain fm w b where p: "p = (fm, w, b)" by (cases p)
    obtain r1 t1 where ff: "featurize_functional ev tr outf w b batch inds = (r1, t1)"
      by (cases "featurize_functional ev tr outf w b batch inds")
    with True Inr p assms have t1: "tr' = t1"
      by (auto simp: featurize_functional_branch split: sum.splits)
    from featurize_functional_rerun [OF ff] ff True Inr p assms t1 show ?thesis
      by (simp add: featurize_functional_branch)
  qed
qed

lemma ex_feat_pair:
  "featurize ex_env ex_tr ex_out_fn () ex_func_model ex_batch ex_inds True
     = (Inr PyNone, ex_tr_feat)"
  using ex_feat(1) by (simp add: ex_tr_feat_def prod_eq_iff)

section \<open>What featurize returns\<close>

lemma record_grads_mof:
  "record_grads cst (tr\<lparr>model_output_fn := m\<rparr>) g inds
     = (fst (record_grads cst tr g inds), (snd (record_grads cst tr g inds))\<lparr>model_output_fn := m\<rparr>)"
  by (simp add: record_grads_def split: sum.splits prod.splits)

lemma featurize_functional_mof:
  "featurize_functional ev (tr\<lparr>model_output_fn := m\<rparr>) outf w b batch inds
     = (fst (featurize_functional ev tr outf w b batch inds),
        (snd (featurize_functional ev tr outf w b batch inds))\<lparr>model_output_fn := m\<rparr>)"
  by (simp add: featurize_functional_def record_grads_mof split: option.splits sum.splits prod.splits)

lemma record_grads_only_grads:
  assumes "record_grads cst tr g inds = (res, tr')"
  shows "tr' = tr\<lparr>grads := grads tr'\<rparr>"
  using record_grads_cases [OF assms] by auto

lemma featurize_only_grads:
  assumes "featurize ev tr outf lf mdl batch inds functional = (res, tr')"
  shows "tr' = tr\<lparr>grads := grads tr'\<rparr>"
  using featurize_state [OF assms] by (auto dest: record_grads_only_grads)

text \<open>
  C10. Every call to featurize that completes without raising returns None, and the
  loss quantity of the functional path is computed and then dropped: the call is a
  functional one, the object it leaves is the one \<^verbatim>\<open>_featurize_functional\<close> left
  (it differs from the object before the call in the table only), and with any other
  output-to-loss capability under which the call completes, the returned value and the
  table are the same.
\<close>

theorem featurize_returns_None:
  assumes "featurize ev tr outf lf mdl batch inds functional = (Inr v, tr')"
  shows "v = PyNone \<and> functional
       \<and> (\<exists>fm w b lg. mdl = FunctionalModel fm w b
             \<and> featurize_functional ev tr outf w b batch inds = (Inr PyNone, tr')
             \<and> get_loss_grad_functional tr' fm w b batch inds = Inr lg)
       \<and> tr' = tr\<lparr>grads := grads tr'\<rparr>
       \<and> (\<forall>mof v2 tr2.
             featurize ev (tr\<lparr>model_output_fn := mof\<rparr>) outf lf mdl batch inds functional
               = (Inr v2, tr2)
             \<longrightarrow> v2 = v \<and> tr2 = tr'\<lparr>model_output_fn := mof\<rparr>)"
proof -
  from assms have v: "v = PyNone" and fn: functional unfolding featurize_Inr by blast+
  from assms obtain fm w b lg where mdl: "mdl = FunctionalModel fm w b"
    and ff: "featurize_functional ev tr outf w b batch inds = (Inr PyNone, tr')"
    and lg: "get_loss_grad_functional tr' fm w b batch inds = Inr lg"
    unfolding featurize_Inr by blast
  have "v2 = v \<and> tr2 = tr'\<lparr>model_output_fn := mof\<rparr>"
    if "featurize ev (tr\<lparr>model_output_fn := mof\<rparr>) outf lf mdl batch inds functional
          = (Inr v2, tr2)" for mof v2 tr2
  proof -
    from that mdl have "v2 = PyNone"
      and "featurize_functional ev (tr\<lparr>model_output_fn := mof\<rparr>) outf w b batch inds
             = (Inr PyNone, tr2)"
      unfolding featurize_Inr by auto
    with ff v show ?thesis by (simp add: featurize_functional_mof)
  qed
  with v fn mdl ff lg featurize_only_grads [OF assms] show ?thesis by blast
qed

lemma ex_feat_mof2:
  "fst (featurize ex_env (ex_tr\<lparr>model_output_fn := ex_mof2\<rparr>) ex_out_fn () ex_func_model
          ex_batch ex_inds True) = Inr PyNone"
  by code_simp

lemma ex_mof_differ: "ex_mof [[1]] [] \<noteq> ex_mof2 [[1]] []"
  by code_simp

theorem featurize_returns_None_witness:
  "featurize ex_env ex_tr ex_out_fn () ex_func_model ex_batch ex_inds True
     = (Inr PyNone, ex_tr_feat)
   \<and> ex_tr_feat = ex_tr\<lparr>grads := grads ex_tr_feat\<rparr>
   \<and> ex_mof [[1]] [] \<noteq> ex_mof2 [[1]] []
   \<and> featurize ex_env (ex_tr\<lparr>model_output_fn := ex_mof2\<rparr>) ex_out_fn () ex_func_model
        ex_batch ex_inds True = (Inr PyNone, ex_tr_feat\<lparr>model_output_fn := ex_mof2\<rparr>)"
proof -
  note inst = featurize_returns_None [OF ex_feat_pair]
  let ?run = "featurize ex_env (ex_tr\<lparr>model_output_fn := ex_mof2\<rparr>) ex_out_fn () ex_func_model
        ex_batch ex_inds True"
  have "?run = (Inr PyNone, snd ?run)" using ex_feat_mof2 by (simp add: prod_eq_iff)
  with inst have "snd ?run = ex_tr_feat\<lparr>model_output_fn := ex_mof2\<rparr>" by blast
  with ex_feat_mof2 have "?run = (Inr PyNone, ex_tr_feat\<lparr>model_output_fn := ex_mof2\<rparr>)"
    by (simp add: prod_eq_iff)
  moreover from inst have "ex_tr_feat = ex_tr\<lparr>grads := grads ex_tr_feat\<rparr>" by blast
  ultimately show ?thesis using ex_feat_pair ex_mof_differ by simp
qed

section \<open>Failing calls\<close>











lemma unpack_items_length:
  "unpack_items xs
     = (if length xs = 3 then Inr (not_callable, xs ! 1, xs ! 2) else Inl ValueError)"
  by (auto simp: unpack_items_def split: list.splits)

text \<open>
  C3 (as amended). When the functional strategy is requested and \<^verbatim>\<open>functorch\<close> could
  not be imported, featurize fails with NameError whenever the model unpacks into three
  items (a triple, or any other iterable of three items); the unpacking itself raises
  TypeError for a model that cannot be iterated and ValueError for an iterable of
  another length. In every case the object is left unchanged and the iterative strategy
  is not run instead.
\<close>

theorem no_functorch_fails:
  assumes "functorch ev = None"
  shows "featurize ev tr outf lf (FunctionalModel fm w b) batch inds True = (Inl NameError, tr)
       \<and> featurize ev tr outf lf (Module ps) batch inds True = (Inl TypeError, tr)
       \<and> (length xs \<noteq> 3 \<longrightarrow>
            featurize ev tr outf lf (Items xs) batch inds True = (Inl ValueError, tr)
            \<and> featurize ev tr outf lf (Sequential xs) batch inds True = (Inl ValueError, tr))
       \<and> (length xs = 3 \<longrightarrow>
            featurize ev tr outf lf (Items xs) batch inds True = (Inl NameError, tr)
            \<and> featurize ev tr outf lf (Sequential xs) batch inds True = (Inl NameError, tr))"
  using assms
  by (simp add: featurize_def unpack3_def unpack_items_length featurize_functional_def)

theorem no_functorch_fails_witness:
  "functorch ex_env_no_functorch = None
   \<and> featurize ex_env_no_functorch ex_tr ex_out_fn () ex_func_model ex_batch ex_inds True
       = (Inl NameError, ex_tr)
   \<and> featurize ex_env_no_functorch ex_tr ex_out_fn () (Module ex_model) ex_batch ex_inds True
       = (Inl TypeError, ex_tr)
   \<and> featurize ex_env_no_functorch ex_tr ex_out_fn () (Items [ex_model, ex_buffers]) ex_batch
        ex_inds True = (Inl ValueError, ex_tr)
   \<and> featurize ex_env_no_functorch ex_tr ex_out_fn () (Sequential [ex_model, ex_buffers])
        ex_batch ex_inds True = (Inl ValueError, ex_tr)
   \<and> featurize ex_env_no_functorch ex_tr ex_out_fn ()
        (Sequential [ex_model, ex_model, ex_buffers]) ex_batch ex_inds True
        = (Inl NameError, ex_tr)"
proof -
  have none: "functorch ex_env_no_functorch = None" by (simp add: ex_env_no_functorch_def)
  have two: "length [ex_model, ex_buffers] \<noteq> 3"
    and three: "length [ex_model, ex_model, ex_buffers] = 3" by simp_all
  from no_functorch_fails [OF none, of ex_tr ex_out_fn "()" _ ex_model ex_buffers ex_batch
      ex_inds ex_model "[ex_model, ex_buffers]"] two
  have "featurize ex_env_no_functorch ex_tr ex_out_fn () ex_func_model ex_batch ex_inds True
       = (Inl NameError, ex_tr)"
    "featurize ex_env_no_functorch ex_tr ex_out_fn () (Module ex_model) ex_batch ex_inds True
       = (Inl TypeError, ex_tr)"
    "featurize ex_env_no_functorch ex_tr ex_out_fn () (Items [ex_model, ex_buffers]) ex_batch
        ex_inds True = (Inl ValueError, ex_tr)"
    "featurize ex_env_no_functorch ex_tr ex_out_fn () (Sequential [ex_model, ex_buffers])
        ex_batch ex_inds True = (Inl ValueError, ex_tr)"
    by (simp_all add: ex_func_model_def)
  moreover from no_functorch_fails [OF none, of ex_tr ex_out_fn "()" _ ex_model ex_buffers
      ex_batch ex_inds ex_model "[ex_model, ex_model, ex_buffers]"] three
  have "featurize ex_env_no_functorch ex_tr ex_out_fn ()
        (Sequential [ex_model, ex_model, ex_buffers]) ex_batch ex_inds True
        = (Inl NameError, ex_tr)" by simp
  ultimately show ?thesis using none by simp
qed

text \<open>
  C3, as stated, fails: the error is NameError, not UnsupportedModeError.
\<close>

theorem no_functorch_counterexample:
  "functorch ex_env_no_functorch = None
   \<and> fst (featurize ex_env_no_functorch ex_tr ex_out_fn () ex_func_model ex_batch ex_inds True)
       = Inl NameError
   \<and> fst (featurize ex_env_no_functorch ex_tr ex_out_fn () ex_func_model ex_batch ex_inds True)
       \<noteq> Inl UnsupportedModeError"
proof -
  have "fst (featurize ex_env_no_functorch ex_tr ex_out_fn () ex_func_model ex_batch ex_inds True)
       = Inl NameError" by code_simp
  then show ?thesis by (simp add: ex_env_no_functorch_def)
qed

text \<open>
  C1 on the iterative strategy, at the batch of two samples with indices 3 and 4 on
  the fresh five-row table: the call raises TypeError (inds arrives as batch_size)
  and the table is still zero. Without inds, \<^verbatim>\<open>_featurize_iter\<close> returns the
  gradient matrix, which is dropped, the call raises AttributeError, and the table is
  still zero: RecordGrads is not reached and no loss quantity is computed.
\<close>

theorem featurize_iterative_never_records:
  "fst (featurize ex_env ex_tr ex_out_fn () (Module ex_model) ex_batch ex_inds False)
     = Inl TypeError
   \<and> t_rows (grads (snd (featurize ex_env ex_tr ex_out_fn () (Module ex_model) ex_batch
                           ex_inds False)))
       = [[0, 0], [0, 0], [0, 0], [0, 0], [0, 0]]
   \<and> featurize_iter ex_env ex_tr ex_out_fn (Module ex_model) ex_batch None
       = Inr (PyTensor \<lparr>t_dtype = Float32, t_cols = 3,
                         t_rows = [[10, 20, 30], [20, 40, 60]]\<rparr>)
   \<and> fst (featurize ex_env ex_tr ex_out_fn () (Module ex_model) ex_batch None False)
       = Inl AttributeError
   \<and> t_rows (grads (snd (featurize ex_env ex_tr ex_out_fn () (Module ex_model) ex_batch
                           None False)))
       = [[0, 0], [0, 0], [0, 0], [0, 0], [0, 0]]"
  by (intro conjI; code_simp)

end
